theory Spec2Isabelle
  imports Complex_Main
begin

section \<open>DeviceExtension.js: the "Add Device" viewer extension\<close>

text \<open>
  A shallow embedding of \<^verbatim>\<open>src/client/DeviceExtension.js\<close>. The file defines two classes,
  \<^verbatim>\<open>DeviceExtension\<close> (toolbar button, lazily created panel) and \<^verbatim>\<open>NewDevicePanel\<close>
  (form, selection observer, submit handler). Everything they call belongs to the host:
  the viewer framework, the DOM, THREE.Box3 and fetch. Host objects are modelled as
  state records, host behaviour that the source cannot see into (scene traversal,
  bounding boxes, the network) is taken as a parameter, and every exception the source
  can meet is a value of \<open>js_error\<close>.
\<close>

subsection \<open>Values and exceptions of the host language\<close>

type_synonym dbid = int
type_synonym fragId = int

datatype js_error =
    TypeError           \<comment> \<open>a property read or a call on null or undefined\<close>
  | HostError string    \<comment> \<open>an exception raised inside a host call\<close>
  | Rejected string     \<comment> \<open>a rejected promise of fetch or of resp.text()\<close>
  | NewError string     \<comment> \<open>\<^verbatim>\<open>new Error(text)\<close>, line 126\<close>

text \<open>Reading index \<open>i\<close> of a JavaScript array never raises: out of range it is undefined.\<close>

definition js_index :: "'a list \<Rightarrow> nat \<Rightarrow> 'a option" where
  "js_index xs i = (if i < length xs then Some (xs ! i) else None)"

subsection \<open>The document\<close>

datatype listener = OnViewerSelectionChanged | OnSubmitButtonClick | TogglePanel

record element =
  attributes :: "string \<rightharpoonup> string"
  elem_value :: string
  listeners :: "(string \<times> listener) list"

text \<open>\<^verbatim>\<open>document.getElementById\<close> is the lookup of a map from ids to elements; a missing id
  is null. Ids are unique in a page, so markup that is added defines the elements of its
  ids.\<close>

type_synonym document = "string \<rightharpoonup> element"

definition setAttribute :: "element \<Rightarrow> string \<Rightarrow> string \<Rightarrow> element" where
  "setAttribute e k v = e\<lparr>attributes := (attributes e)(k \<mapsto> v)\<rparr>"

definition removeAttribute :: "element \<Rightarrow> string \<Rightarrow> element" where
  "removeAttribute e k = e\<lparr>attributes := (attributes e)(k := None)\<rparr>"

definition addEventListener :: "element \<Rightarrow> string \<Rightarrow> listener \<Rightarrow> element" where
  "addEventListener e ev l = e\<lparr>listeners := listeners e @ [(ev, l)]\<rparr>"

subsection \<open>The viewer\<close>

text \<open>
  The scene of the host. \<^verbatim>\<open>tree.enumNodeFragments(node, callback, recursive)\<close> either raises
  or hands a sequence of fragment ids to the callback, one call each, in order; the node
  is \<open>None\<close> when the source passes undefined. \<^verbatim>\<open>frags.getWorldBounds(fragId, dst)\<close> either
  raises or writes into the box \<open>dst\<close> it is given; the model takes the old content of
  \<open>dst\<close> and returns the new one, because the source reuses one box for every fragment.
\<close>

type_synonym instance_tree = "dbid option \<Rightarrow> bool \<Rightarrow> js_error + fragId list"
type_synonym 'box fragment_list = "fragId \<Rightarrow> 'box \<Rightarrow> js_error + 'box"

record 'box model3d =
  getInstanceTree :: "instance_tree option"
  getFragmentList :: "'box fragment_list option"

text \<open>
  Toolbar controls are objects with identity: they live in a store (a list, a reference
  is an index, \<^verbatim>\<open>new\<close> appends). A control group keeps the references of its children.
\<close>

record ui_control =
  control_id :: string
  controls :: "nat list"
  toolTip :: "string option"
  onClick :: "listener option"

record 'box viewer =
  selection :: "dbid list"                 \<comment> \<open>\<^verbatim>\<open>viewer.getSelection()\<close>\<close>
  model :: "'box model3d option"           \<comment> \<open>\<^verbatim>\<open>viewer.model\<close>, null while nothing is loaded\<close>
  ui :: "ui_control list"                  \<comment> \<open>the store of toolbar controls\<close>
  toolbar :: "nat option"                  \<comment> \<open>\<^verbatim>\<open>viewer.toolbar\<close>\<close>
  document :: document                     \<comment> \<open>the page's document\<close>
  selection_listeners :: "listener list"   \<comment> \<open>listeners of SELECTION_CHANGED_EVENT\<close>

definition new_control :: "string \<Rightarrow> ui_control" where
  "new_control i = \<lparr>control_id = i, controls = [], toolTip = None, onClick = None\<rparr>"

text \<open>\<^verbatim>\<open>group.getControl(id)\<close>: the first child with that id, or null.\<close>

definition getControl :: "ui_control list \<Rightarrow> nat \<Rightarrow> string \<Rightarrow> nat option" where
  "getControl h g i = find (\<lambda>c. control_id (h ! c) = i) (controls (h ! g))"

text \<open>\<^verbatim>\<open>group.addControl(control)\<close>: appends the control; the host refuses a second control
  with an id the group already has.\<close>

definition addControl :: "ui_control list \<Rightarrow> nat \<Rightarrow> nat \<Rightarrow> ui_control list" where
  "addControl h g c =
     (if getControl h g (control_id (h ! c)) \<noteq> None then h
      else h[g := (h ! g)\<lparr>controls := controls (h ! g) @ [c]\<rparr>])"

subsection \<open>THREE.Box3, JSON and fetch\<close>

text \<open>
  The box arithmetic is the library's: \<open>Box3_new\<close> is the empty box of
  \<^verbatim>\<open>new THREE.Box3()\<close>, \<open>Box3_union a b\<close> the content of \<open>a\<close> after \<^verbatim>\<open>a.union(b)\<close>, and
  \<open>Box3_center\<close> the coordinates x, y, z of \<^verbatim>\<open>box.center()\<close>. The number type is a
  parameter as well.
\<close>

record ('box, 'num) three =
  Box3_new :: 'box
  Box3_union :: "'box \<Rightarrow> 'box \<Rightarrow> 'box"
  Box3_center :: "'box \<Rightarrow> 'num \<times> 'num \<times> 'num"

text \<open>The request body is kept as the value handed to \<^verbatim>\<open>JSON.stringify\<close>, keys in order.\<close>

datatype 'num json = JString string | JNumber 'num | JObject "(string \<times> 'num json) list"

record 'num request =
  url :: "string option"                   \<comment> \<open>\<open>None\<close>: \<^verbatim>\<open>options.url\<close> was undefined\<close>
  http_method :: string
  headers :: "(string \<times> string) list"
  body :: "'num json"

record response =
  ok :: bool
  resp_text :: "js_error + string"         \<comment> \<open>\<^verbatim>\<open>await resp.text()\<close>\<close>

text \<open>What a handler does to the outside, in order.\<close>

datatype 'num effect = Alert string | ConsoleError js_error | Fetch "'num request"

definition alerts :: "'num effect list \<Rightarrow> string list" where
  "alerts tr = concat (map (\<lambda>e. case e of Alert s \<Rightarrow> [s] | _ \<Rightarrow> []) tr)"

definition posts :: "'num effect list \<Rightarrow> 'num request list" where
  "posts tr = concat (map (\<lambda>e. case e of Fetch r \<Rightarrow> [r] | _ \<Rightarrow> []) tr)"

subsection \<open>NewDevicePanel\<close>

record panel =
  panel_id :: string
  panel_title :: string
  panel_options :: "string \<rightharpoonup> string"
  style :: "string \<rightharpoonup> string"
  visible :: bool

text \<open>Lines 87-94. The button is enabled when it has no \<^verbatim>\<open>disabled\<close> attribute.\<close>

definition onViewerSelectionChanged :: "'box viewer \<Rightarrow> js_error + 'box viewer" where
  "onViewerSelectionChanged v =
     (let dbids = selection v in
      if length dbids = 1
      then (case document v ''submitBtn'' of
              None \<Rightarrow> Inl TypeError
            | Some b \<Rightarrow>
                Inr (v\<lparr>document := (document v)
                       (''submitBtn'' \<mapsto> removeAttribute b ''disabled'')\<rparr>))
      else (case document v ''submitBtn'' of
              None \<Rightarrow> Inl TypeError
            | Some b \<Rightarrow>
                Inr (v\<lparr>document := (document v)
                       (''submitBtn'' \<mapsto> setAttribute b ''disabled'' ''true'')\<rparr>)))"

definition submit_enabled :: "'box viewer \<Rightarrow> bool" where
  "submit_enabled v =
     (case document v ''submitBtn'' of
        None \<Rightarrow> False
      | Some b \<Rightarrow> attributes b ''disabled'' = None)"

text \<open>The callback of lines 105-108, run over the fragments the host enumerates. The
  state is the pair of the two boxes \<^verbatim>\<open>totalBounds\<close> and \<^verbatim>\<open>fragBounds\<close>.\<close>

fun enumCallbacks ::
  "('box, 'num) three \<Rightarrow> 'box fragment_list option \<Rightarrow> fragId list \<Rightarrow> 'box \<times> 'box
     \<Rightarrow> js_error + 'box \<times> 'box" where
  "enumCallbacks T frags [] (totalBounds, fragBounds) = Inr (totalBounds, fragBounds)"
| "enumCallbacks T frags (fragId # rest) (totalBounds, fragBounds) =
     (case frags of
        None \<Rightarrow> Inl TypeError
      | Some fl \<Rightarrow>
          (case fl fragId fragBounds of
             Inl e \<Rightarrow> Inl e
           | Inr fragBounds' \<Rightarrow>
               enumCallbacks T frags rest (Box3_union T totalBounds fragBounds', fragBounds')))"

text \<open>Lines 100-109: the center of what is selected.\<close>

definition selectionCenter ::
  "('box, 'num) three \<Rightarrow> 'box viewer \<Rightarrow> js_error + 'num \<times> 'num \<times> 'num" where
  "selectionCenter T v =
     (let dbids = selection v in
      case model v of
        None \<Rightarrow> Inl TypeError
      | Some m \<Rightarrow>
          let tree = getInstanceTree m; frags = getFragmentList m in
          (case tree of
             None \<Rightarrow> Inl TypeError
           | Some enumNodeFragments \<Rightarrow>
               (case enumNodeFragments (js_index dbids 0) True of
                  Inl e \<Rightarrow> Inl e
                | Inr fragIds \<Rightarrow>
                    (case enumCallbacks T frags fragIds (Box3_new T, Box3_new T) of
                       Inl e \<Rightarrow> Inl e
                     | Inr (totalBounds, fragBounds) \<Rightarrow> Inr (Box3_center T totalBounds)))))"

text \<open>\<^verbatim>\<open>document.getElementById(id).value\<close>.\<close>

definition field_value :: "document \<Rightarrow> string \<Rightarrow> js_error + string" where
  "field_value d i = (case d i of None \<Rightarrow> Inl TypeError | Some e \<Rightarrow> Inr (elem_value e))"

text \<open>Lines 112-117: the device object; line 116 builds the object of the coordinates.\<close>

definition xyz :: "'num \<times> 'num \<times> 'num \<Rightarrow> 'num json" where
  "xyz center =
     (case center of (x, y, z) \<Rightarrow>
        JObject [(''x'', JNumber x), (''y'', JNumber y), (''z'', JNumber z)])"

definition device ::
  "string \<Rightarrow> string \<Rightarrow> string \<Rightarrow> 'num \<times> 'num \<times> 'num \<Rightarrow> 'num json" where
  "device dm di dn center =
     JObject [(''deviceModelId'', JString dm), (''deviceId'', JString di),
              (''deviceName'', JString dn), (''positon'', xyz center)]"

text \<open>The value under a key of a JSON object.\<close>

fun json_get :: "'num json \<Rightarrow> string \<Rightarrow> 'num json option" where
  "json_get (JObject kvs) k = map_of kvs k"
| "json_get j k = None"

text \<open>Lines 118-124: the request handed to fetch.\<close>

definition device_request :: "panel \<Rightarrow> 'num json \<Rightarrow> 'num request" where
  "device_request p d =
     \<lparr>url = panel_options p ''url'', http_method = ''post'',
      headers = [(''Content-Type'', ''application/json'')], body = d\<rparr>"

text \<open>
  Lines 99-129, the body of the \<^verbatim>\<open>try\<close>: the effects so far, and how it ends (\<open>Inl\<close>: it
  throws). \<open>fetch\<close> is the network: a rejected promise or a response; the request is
  taken to settle, and so is the reading of the response's text.
\<close>

definition submit_try ::
  "('box, 'num) three \<Rightarrow> ('num request \<Rightarrow> js_error + response) \<Rightarrow> 'box viewer \<Rightarrow> panel
     \<Rightarrow> 'num effect list \<times> (js_error + unit)" where
  "submit_try T fetch v p =
     (case selectionCenter T v of
        Inl e \<Rightarrow> ([], Inl e)
      | Inr center \<Rightarrow>
     (case field_value (document v) ''deviceModelId'' of
        Inl e \<Rightarrow> ([], Inl e)
      | Inr dm \<Rightarrow>
     (case field_value (document v) ''deviceId'' of
        Inl e \<Rightarrow> ([], Inl e)
      | Inr di \<Rightarrow>
     (case field_value (document v) ''deviceName'' of
        Inl e \<Rightarrow> ([], Inl e)
      | Inr dn \<Rightarrow>
          let req = device_request p (device dm di dn center) in
          (case fetch req of
             Inl e \<Rightarrow> ([Fetch req], Inl e)
           | Inr resp \<Rightarrow>
               if \<not> ok resp
               then (case resp_text resp of
                       Inl e \<Rightarrow> ([Fetch req], Inl e)
                     | Inr t \<Rightarrow> ([Fetch req], Inl (NewError t)))
               else ([Fetch req, Alert ''New device has been successfully added.''], Inr ()))))))"

text \<open>Lines 97-134: the handler. The result is the settled promise of the async function.\<close>

definition onSubmitButtonClick ::
  "('box, 'num) three \<Rightarrow> ('num request \<Rightarrow> js_error + response) \<Rightarrow> 'box viewer \<Rightarrow> panel
     \<Rightarrow> 'num effect list \<times> (js_error + unit)" where
  "onSubmitButtonClick T fetch v p =
     (case submit_try T fetch v p of
        (tr, Inr u) \<Rightarrow> (tr, Inr ())
      | (tr, Inl err) \<Rightarrow>
          (tr @ [Alert ''Could not add new device. See console for more details.'',
                 ConsoleError err], Inr ()))"

text \<open>
  Lines 66-80: the elements with an id that the markup assigned to \<^verbatim>\<open>innerHTML\<close> creates.
  A select shows its first option, a text input starts empty.
\<close>

definition panel_markup :: "(string \<times> element) list" where
  "panel_markup =
     [(''deviceModelId'',
         \<lparr>attributes = [''name'' \<mapsto> ''deviceModelId'', ''id'' \<mapsto> ''deviceModelId''],
          elem_value = ''dm1'', listeners = []\<rparr>),
      (''deviceId'',
         \<lparr>attributes = [''type'' \<mapsto> ''text'', ''id'' \<mapsto> ''deviceId''],
          elem_value = [], listeners = []\<rparr>),
      (''deviceName'',
         \<lparr>attributes = [''type'' \<mapsto> ''text'', ''id'' \<mapsto> ''deviceName''],
          elem_value = [], listeners = []\<rparr>),
      (''submitBtn'',
         \<lparr>attributes = [''id'' \<mapsto> ''submitBtn'', ''style'' \<mapsto> ''margin-top: 1em;''],
          elem_value = [], listeners = []\<rparr>)]"

text \<open>
  Lines 55-84: the constructor. The base class keeps the options it is given and
  creates the container inside the viewer's, hidden; the panel's markup is part of the
  page's document from then on.
\<close>

definition NewDevicePanel_new ::
  "'box viewer \<Rightarrow> string \<Rightarrow> string \<Rightarrow> (string \<rightharpoonup> string)
     \<Rightarrow> js_error + 'box viewer \<times> panel" where
  "NewDevicePanel_new v i title opts =
     (let p = \<lparr>panel_id = i, panel_title = title, panel_options = opts,
                style = [''height'' \<mapsto> ''auto'', ''width'' \<mapsto> ''auto'', ''resize'' \<mapsto> ''none'',
                         ''left'' \<mapsto> ''40px'', ''top'' \<mapsto> ''120px''],
                visible = False\<rparr>;
          v1 = v\<lparr>document := document v ++ map_of panel_markup\<rparr>
      in case onViewerSelectionChanged v1 of
           Inl e \<Rightarrow> Inl e
         | Inr v2 \<Rightarrow>
             let v3 = v2\<lparr>selection_listeners :=
                          selection_listeners v2 @ [OnViewerSelectionChanged]\<rparr>
             in (case document v3 ''submitBtn'' of
                   None \<Rightarrow> Inl TypeError
                 | Some b \<Rightarrow>
                     Inr (v3\<lparr>document := (document v3)
                            (''submitBtn'' \<mapsto> addEventListener b ''click'' OnSubmitButtonClick)\<rparr>,
                          p)))"

subsection \<open>DeviceExtension\<close>

record 'box extension =
  viewer :: "'box viewer"
  options :: "string \<rightharpoonup> string"
  panel :: "panel option"          \<comment> \<open>\<^verbatim>\<open>this._panel\<close>\<close>
  group :: "nat option"            \<comment> \<open>\<^verbatim>\<open>this._group\<close>\<close>
  button :: "nat option"           \<comment> \<open>\<^verbatim>\<open>this._button\<close>\<close>

text \<open>Lines 11-15. The base class stores the options it is given, or an empty object
  when it is given none.\<close>

definition DeviceExtension_new ::
  "'box viewer \<Rightarrow> (string \<rightharpoonup> string) option \<Rightarrow> 'box extension" where
  "DeviceExtension_new v opts =
     (let super_options = (case opts of None \<Rightarrow> Map.empty | Some m \<Rightarrow> m) in
      \<lparr>viewer = v,
       options = super_options(''url'' \<mapsto> ''/api/devices?provider=synthetic&project=unused''),
       panel = None, group = None, button = None\<rparr>)"

text \<open>Lines 17-25: what is logged, what is returned, and the extension afterwards.\<close>

definition load :: "'box extension \<Rightarrow> string list \<times> bool \<times> 'box extension" where
  "load x = ([''DeviceExtension loaded.''], True, x)"

definition unload :: "'box extension \<Rightarrow> string list \<times> bool \<times> 'box extension" where
  "unload x = ([''DeviceExtension unloaded.''], True, x)"

text \<open>Lines 31-47.\<close>

definition createUI :: "'box extension \<Rightarrow> js_error + 'box extension" where
  "createUI x =
     (case toolbar (viewer x) of
        None \<Rightarrow> Inl TypeError
      | Some tb \<Rightarrow>
          let h = ui (viewer x);
              g = getControl h tb ''device-extension-group''
          in (case g of
                Some r \<Rightarrow> Inr (x\<lparr>group := g\<rparr>)
              | None \<Rightarrow>
                  let gi = length h;
                      h1 = h @ [new_control ''device-extension-group''];
                      h2 = addControl h1 tb gi;
                      bi = length h2;
                      h3 = h2 @ [new_control ''add-device-button''];
                      h4 = addControl h3 gi bi;
                      h5 = h4[bi := (h4 ! bi)\<lparr>toolTip := Some ''Add Device''\<rparr>];
                      h6 = h5[bi := (h5 ! bi)\<lparr>onClick := Some TogglePanel\<rparr>]
                  in Inr (x\<lparr>group := Some gi, button := Some bi,
                            viewer := (viewer x)\<lparr>ui := h6\<rparr>\<rparr>)))"

text \<open>Lines 27-29.\<close>

definition onToolbarCreated :: "'box extension \<Rightarrow> js_error + 'box extension" where
  "onToolbarCreated x = createUI x"

text \<open>The toolbar-creation path invoked \<open>n\<close> times in a row.\<close>

fun createUI_times :: "nat \<Rightarrow> 'box extension \<Rightarrow> js_error + 'box extension" where
  "createUI_times 0 x = Inr x"
| "createUI_times (Suc n) x =
     (case createUI x of Inl e \<Rightarrow> Inl e | Inr x' \<Rightarrow> createUI_times n x')"

text \<open>Lines 40-45: the click handler of the toolbar button.\<close>

definition button_onClick :: "'box extension \<Rightarrow> js_error + 'box extension" where
  "button_onClick x =
     (case panel x of
        None \<Rightarrow>
          (case NewDevicePanel_new (viewer x) ''new-device-panel'' ''Add Device'' (options x) of
             Inl e \<Rightarrow> Inl e
           | Inr (v, p) \<Rightarrow> Inr (x\<lparr>viewer := v, panel := Some (p\<lparr>visible := \<not> visible p\<rparr>)\<rparr>))
      | Some p \<Rightarrow> Inr (x\<lparr>panel := Some (p\<lparr>visible := \<not> visible p\<rparr>)\<rparr>))"

text \<open>The groups of the toolbar named \<open>i\<close>, and the ids of a group's children.\<close>

definition groups_named :: "'box viewer \<Rightarrow> string \<Rightarrow> nat list" where
  "groups_named v i =
     (case toolbar v of
        None \<Rightarrow> []
      | Some tb \<Rightarrow> filter (\<lambda>c. control_id (ui v ! c) = i) (controls (ui v ! tb)))"

definition child_ids :: "'box viewer \<Rightarrow> nat \<Rightarrow> string list" where
  "child_ids v g = map (\<lambda>c. control_id (ui v ! c)) (controls (ui v ! g))"

subsection \<open>A host to evaluate on\<close>

text \<open>
  An instance of the box interface over the reals: a box is empty or a pair of corners,
  and the center of the empty box has no number for a coordinate (\<open>None\<close>), as adding the
  two infinite corners of the library's empty box gives none.
\<close>

type_synonym box3 = "((real \<times> real \<times> real) \<times> (real \<times> real \<times> real)) option"

fun box3_union :: "box3 \<Rightarrow> box3 \<Rightarrow> box3" where
  "box3_union None b = b"
| "box3_union (Some a) None = Some a"
| "box3_union (Some ((a1, a2, a3), (b1, b2, b3))) (Some ((c1, c2, c3), (d1, d2, d3))) =
     Some ((min a1 c1, min a2 c2, min a3 c3), (max b1 d1, max b2 d2, max b3 d3))"

fun box3_center :: "box3 \<Rightarrow> real option \<times> real option \<times> real option" where
  "box3_center None = (None, None, None)"
| "box3_center (Some ((a1, a2, a3), (b1, b2, b3))) =
     (Some ((a1 + b1) / 2), Some ((a2 + b2) / 2), Some ((a3 + b3) / 2))"

definition real_three :: "(box3, real option) three" where
  "real_three = \<lparr>Box3_new = None, Box3_union = box3_union, Box3_center = box3_center\<rparr>"

text \<open>A scene with one object, 7, of two fragments; any other node has none.\<close>

definition demo_tree :: instance_tree where
  "demo_tree node recursive = Inr (if node = Some 7 then [1, 2] else [])"

definition demo_frags :: "box3 fragment_list" where
  "demo_frags f dst =
     (if f = 1 then Inr (Some ((0, 0, 0), (2, 2, 2)))
      else if f = 2 then Inr (Some ((1, 1, 1), (4, 6, 8)))
      else Inl (HostError ''no such fragment''))"

definition demo_model :: "box3 model3d" where
  "demo_model = \<lparr>getInstanceTree = Some demo_tree, getFragmentList = Some demo_frags\<rparr>"

text \<open>A page with a toolbar (control 0) that has one group of the host's (control 1).\<close>

definition demo_viewer :: "box3 viewer" where
  "demo_viewer =
     \<lparr>selection = [], model = Some demo_model,
      ui = [(new_control ''toolbar'')\<lparr>controls := [1]\<rparr>, new_control ''navTools''],
      toolbar = Some 0, document = Map.empty, selection_listeners = []\<rparr>"

text \<open>A server that accepts every request, and one that answers every request with an
  error status and a text.\<close>

definition fetch_ok :: "'num request \<Rightarrow> js_error + response" where
  "fetch_ok r = Inr \<lparr>ok = True, resp_text = Inr []\<rparr>"

definition fetch_500 :: "'num request \<Rightarrow> js_error + response" where
  "fetch_500 r = Inr \<lparr>ok = False, resp_text = Inr ''device exists''\<rparr>"

text \<open>A network that is down: the promise of fetch is rejected.\<close>

definition fetch_offline :: "'num request \<Rightarrow> js_error + response" where
  "fetch_offline r = Inl (Rejected ''Failed to fetch'')"

text \<open>The panel and the page after the first click on the toolbar button.\<close>

definition demo_panel :: panel where
  "demo_panel =
     \<lparr>panel_id = ''new-device-panel'', panel_title = ''Add Device'',
      panel_options = [''url'' \<mapsto> ''/api/devices?provider=synthetic&project=unused''],
      style = Map.empty, visible = True\<rparr>"

definition demo_page :: "box3 viewer" where
  "demo_page = demo_viewer\<lparr>document := map_of panel_markup\<rparr>"

text \<open>
  A second page: three objects, 7, 8 and 9, each with fragments of its own, and a form
  that has been filled in.
\<close>

definition floor_tree :: instance_tree where
  "floor_tree node recursive =
     Inr (if node = Some 7 then [1, 2]
          else if node = Some 8 then [3]
          else if node = Some 9 then [4, 5]
          else [])"

definition floor_frags :: "box3 fragment_list" where
  "floor_frags f dst =
     (if f = 1 then Inr (Some ((0, 0, 0), (2, 2, 2)))
      else if f = 2 then Inr (Some ((1, 1, 1), (4, 6, 8)))
      else if f = 3 then Inr (Some ((10, 10, 10), (20, 20, 20)))
      else if f = 4 then Inr (Some ((- 8, - 8, - 8), (- 4, - 4, - 4)))
      else if f = 5 then Inr (Some ((30, 0, 0), (40, 2, 2)))
      else Inl (HostError ''no such fragment''))"

definition floor_page :: "box3 viewer" where
  "floor_page =
     demo_viewer
       \<lparr>model := Some \<lparr>getInstanceTree = Some floor_tree, getFragmentList = Some floor_frags\<rparr>,
        document := (map_of panel_markup)
          (''deviceModelId'' \<mapsto>
             \<lparr>attributes = [''name'' \<mapsto> ''deviceModelId'', ''id'' \<mapsto> ''deviceModelId''],
              elem_value = ''dm2'', listeners = []\<rparr>,
           ''deviceId'' \<mapsto>
             \<lparr>attributes = [''type'' \<mapsto> ''text'', ''id'' \<mapsto> ''deviceId''],
              elem_value = ''sensor-17'', listeners = []\<rparr>,
           ''deviceName'' \<mapsto>
             \<lparr>attributes = [''type'' \<mapsto> ''text'', ''id'' \<mapsto> ''deviceName''],
              elem_value = ''Lobby thermostat'', listeners = []\<rparr>)\<rparr>"

section \<open>Properties\<close>

subsection \<open>The selection observer and the constructor of the panel\<close>

lemma onViewerSelectionChanged_button:
  assumes "document v ''submitBtn'' = Some b"
  shows "onViewerSelectionChanged v =
           Inr (v\<lparr>document := (document v)(''submitBtn'' \<mapsto>
                  (if length (selection v) = 1 then removeAttribute b ''disabled''
                   else setAttribute b ''disabled'' ''true''))\<rparr>)"
  using assms by (simp add: onViewerSelectionChanged_def)

lemma demo_page_submitBtn:
  "document (demo_page\<lparr>selection := s\<rparr>) ''submitBtn'' =
     Some \<lparr>attributes = [''id'' \<mapsto> ''submitBtn'', ''style'' \<mapsto> ''margin-top: 1em;''],
          elem_value = [], listeners = []\<rparr>"
  by (simp add: demo_page_def demo_viewer_def panel_markup_def)

text \<open>
  C1. On a page that holds the panel's submit button, the selection observer succeeds
  and leaves the button enabled (no \<^verbatim>\<open>disabled\<close> attribute) if and only if the selection
  has exactly one element; for every other size the button carries \<^verbatim>\<open>disabled="true"\<close>.
\<close>

theorem selection_changed_enables_iff_single:
  assumes "document v ''submitBtn'' = Some b"
  shows "\<exists>v' b'. onViewerSelectionChanged v = Inr v' \<and>
           document v' ''submitBtn'' = Some b' \<and>
           (attributes b' ''disabled'' = None) = (length (selection v) = 1) \<and>
           submit_enabled v' = (length (selection v) = 1) \<and>
           (length (selection v) \<noteq> 1 \<longrightarrow> attributes b' ''disabled'' = Some ''true'')"
  using onViewerSelectionChanged_button [OF assms]
  by (simp add: submit_enabled_def removeAttribute_def setAttribute_def)

theorem selection_changed_enables_iff_single_witness:
  "(\<exists>v'. onViewerSelectionChanged (demo_page\<lparr>selection := [7]\<rparr>) = Inr v' \<and> submit_enabled v') \<and>
   (\<exists>v'. onViewerSelectionChanged (demo_page\<lparr>selection := [7, 8]\<rparr>) = Inr v' \<and>
      \<not> submit_enabled v') \<and>
   (\<exists>v'. onViewerSelectionChanged (demo_page\<lparr>selection := []\<rparr>) = Inr v' \<and> \<not> submit_enabled v')"
  using selection_changed_enables_iff_single [OF demo_page_submitBtn [of "[7]"]]
    selection_changed_enables_iff_single [OF demo_page_submitBtn [of "[7, 8]"]]
    selection_changed_enables_iff_single [OF demo_page_submitBtn [of "[]"]]
  by auto

lemma NewDevicePanel_new_result:
  "\<exists>v' p b. NewDevicePanel_new v i title opts = Inr (v', p) \<and>
      panel_options p = opts \<and> panel_id p = i \<and> panel_title p = title \<and> \<not> visible p \<and>
      selection v' = selection v \<and> model v' = model v \<and> ui v' = ui v \<and>
      toolbar v' = toolbar v \<and>
      document v' ''submitBtn'' = Some b \<and>
      (attributes b ''disabled'' = None) = (length (selection v) = 1)"
  by (simp add: NewDevicePanel_new_def onViewerSelectionChanged_def Let_def panel_markup_def
      removeAttribute_def setAttribute_def addEventListener_def)

text \<open>
  C8, as the code has it. The constructor runs the selection observer once (line 81), so
  the button leaves the constructor enabled exactly when one object is selected at that
  moment, and disabled for every other selection.
\<close>

theorem panel_construction_sets_button_from_selection:
  "\<exists>v' p. NewDevicePanel_new v i title opts = Inr (v', p) \<and>
      submit_enabled v' = (length (selection v) = 1)"
  using NewDevicePanel_new_result [of v i title opts]
  by (auto simp: submit_enabled_def)

text \<open>C8 as stated fails: with object 7 selected when the panel is built, the button is
  enabled after construction.\<close>

theorem panel_construction_enabled_counterexample:
  "\<exists>v' p. NewDevicePanel_new (demo_viewer\<lparr>selection := [7]\<rparr>) ''new-device-panel''
        ''Add Device'' [''url'' \<mapsto> ''/api/devices?provider=synthetic&project=unused'']
        = Inr (v', p) \<and>
      submit_enabled v'"
  using NewDevicePanel_new_result [of "demo_viewer\<lparr>selection := [7]\<rparr>" "''new-device-panel''"
        "''Add Device''" "[''url'' \<mapsto> ''/api/devices?provider=synthetic&project=unused'']"]
  by (auto simp: submit_enabled_def)

subsection \<open>load and unload\<close>

text \<open>
  C9. \<^verbatim>\<open>load()\<close> and \<^verbatim>\<open>unload()\<close> return true, log one line each, and leave the extension
  (with the viewer, its toolbar and the panel it holds) as it was.
\<close>

theorem load_unload_return_true_change_nothing:
  "fst (snd (load x)) = True \<and> snd (snd (load x)) = x \<and>
   fst (load x) = [''DeviceExtension loaded.''] \<and>
   fst (snd (unload x)) = True \<and> snd (snd (unload x)) = x \<and>
   fst (unload x) = [''DeviceExtension unloaded.'']"
  by (simp add: load_def unload_def)

subsection \<open>The submit handler\<close>

lemma submit_try_cases:
  "(\<exists>e. submit_try T fetch v p = ([], Inl e)) \<or>
   (\<exists>req e. submit_try T fetch v p = ([Fetch req], Inl e) \<and>
        (fetch req = Inl e \<or> (\<exists>resp. fetch req = Inr resp \<and> \<not> ok resp))) \<or>
   (\<exists>req resp. submit_try T fetch v p =
        ([Fetch req, Alert ''New device has been successfully added.''], Inr ()) \<and>
        fetch req = Inr resp \<and> ok resp)"
  unfolding submit_try_def Let_def
  by (auto split: sum.splits)

lemma posts_onSubmitButtonClick:
  "posts (fst (onSubmitButtonClick T fetch v p)) = posts (fst (submit_try T fetch v p))"
  by (cases "submit_try T fetch v p")
    (auto simp: onSubmitButtonClick_def posts_def split: sum.splits)

lemma posts_submit_try:
  assumes "selectionCenter T v = Inr c"
    and "document v ''deviceModelId'' = Some e1"
    and "document v ''deviceId'' = Some e2"
    and "document v ''deviceName'' = Some e3"
  shows "posts (fst (submit_try T fetch v p)) =
           [device_request p (device (elem_value e1) (elem_value e2) (elem_value e3) c)]"
  using assms
  by (auto simp: submit_try_def field_value_def posts_def Let_def split: sum.splits)

lemma posts_submit_try_none:
  assumes "selectionCenter T v = Inl e \<or> document v ''deviceModelId'' = None \<or>
     document v ''deviceId'' = None \<or> document v ''deviceName'' = None"
  shows "posts (fst (submit_try T fetch v p)) = []"
  using assms
  by (auto simp: submit_try_def field_value_def posts_def Let_def
      split: sum.splits option.splits)

lemma posts_submit_try_le1: "length (posts (fst (submit_try T fetch v p))) \<le> 1"
  using submit_try_cases [of T fetch v p] by (auto simp: posts_def)

lemma posts_submit_try_shape:
  "\<forall>req\<in>set (posts (fst (submit_try T fetch v p))).
     url req = panel_options p ''url'' \<and> http_method req = ''post'' \<and>
     headers req = [(''Content-Type'', ''application/json'')]"
  unfolding submit_try_def Let_def
  by (auto simp: posts_def device_request_def split: sum.splits)

text \<open>The handler on the page of the example, with object 7 the first one selected.\<close>

lemma demo_center:
  "selectionCenter real_three (demo_page\<lparr>selection := 7 # rest\<rparr>) =
     Inr (Some 2, Some 3, Some 4)"
  by (simp add: selectionCenter_def demo_page_def demo_viewer_def demo_model_def demo_tree_def
      demo_frags_def real_three_def js_index_def)

lemma demo_fields:
  "document (demo_page\<lparr>selection := s\<rparr>) ''deviceModelId'' =
     Some \<lparr>attributes = [''name'' \<mapsto> ''deviceModelId'', ''id'' \<mapsto> ''deviceModelId''],
          elem_value = ''dm1'', listeners = []\<rparr>"
  "document (demo_page\<lparr>selection := s\<rparr>) ''deviceId'' =
     Some \<lparr>attributes = [''type'' \<mapsto> ''text'', ''id'' \<mapsto> ''deviceId''],
          elem_value = [], listeners = []\<rparr>"
  "document (demo_page\<lparr>selection := s\<rparr>) ''deviceName'' =
     Some \<lparr>attributes = [''type'' \<mapsto> ''text'', ''id'' \<mapsto> ''deviceName''],
          elem_value = [], listeners = []\<rparr>"
  by (simp_all add: demo_page_def demo_viewer_def panel_markup_def)

lemma demo_page_fields:
  "document demo_page ''deviceModelId'' =
     Some \<lparr>attributes = [''name'' \<mapsto> ''deviceModelId'', ''id'' \<mapsto> ''deviceModelId''],
          elem_value = ''dm1'', listeners = []\<rparr>"
  "document demo_page ''deviceId'' =
     Some \<lparr>attributes = [''type'' \<mapsto> ''text'', ''id'' \<mapsto> ''deviceId''],
          elem_value = [], listeners = []\<rparr>"
  "document demo_page ''deviceName'' =
     Some \<lparr>attributes = [''type'' \<mapsto> ''text'', ''id'' \<mapsto> ''deviceName''],
          elem_value = [], listeners = []\<rparr>"
  using demo_fields [of "selection demo_page"] by simp_all

lemma demo_page_model:
  "model demo_page = Some demo_model" "getInstanceTree demo_model = Some demo_tree"
  by (simp_all add: demo_page_def demo_viewer_def demo_model_def)

lemma demo_submit_try:
  "submit_try real_three fetch (demo_page\<lparr>selection := 7 # rest\<rparr>) demo_panel =
     (let req = device_request demo_panel (device ''dm1'' [] [] (Some 2, Some 3, Some 4))
      in case fetch req of
           Inl e \<Rightarrow> ([Fetch req], Inl e)
         | Inr resp \<Rightarrow>
             if \<not> ok resp
             then (case resp_text resp of
                     Inl e \<Rightarrow> ([Fetch req], Inl e)
                   | Inr t \<Rightarrow> ([Fetch req], Inl (NewError t)))
             else ([Fetch req, Alert ''New device has been successfully added.''], Inr ()))"
  by (simp add: submit_try_def demo_center demo_page_fields field_value_def)

text \<open>
  C2. Every run of the submit handler settles without an exception and shows exactly one
  alert, which is one of two fixed texts: the success text, exactly when the one request
  it made was answered with an ok response, and otherwise the generic failure text,
  exactly when the body of the \<^verbatim>\<open>try\<close> threw. The text of the error is in neither.
\<close>

theorem submit_exactly_one_outcome:
  "snd (onSubmitButtonClick T fetch v p) = Inr () \<and>
   (alerts (fst (onSubmitButtonClick T fetch v p)) = [''New device has been successfully added.''] \<or>
    alerts (fst (onSubmitButtonClick T fetch v p)) =
      [''Could not add new device. See console for more details.'']) \<and>
   ((alerts (fst (onSubmitButtonClick T fetch v p)) = [''New device has been successfully added.''])
      = (\<exists>req resp. posts (fst (onSubmitButtonClick T fetch v p)) = [req] \<and>
            fetch req = Inr resp \<and> ok resp)) \<and>
   ((alerts (fst (onSubmitButtonClick T fetch v p)) =
        [''Could not add new device. See console for more details.''])
      = (\<exists>err. snd (submit_try T fetch v p) = Inl err))"
  using submit_try_cases [of T fetch v p]
  by (auto simp: onSubmitButtonClick_def alerts_def posts_def)

text \<open>On the example: an accepting server, a refusing server whose text goes to the
  console only, a network that is down, and a model whose instance tree is not there.\<close>

theorem submit_exactly_one_outcome_witness:
  "alerts (fst (onSubmitButtonClick real_three fetch_ok (demo_page\<lparr>selection := [7]\<rparr>) demo_panel))
     = [''New device has been successfully added.''] \<and>
   fst (onSubmitButtonClick real_three fetch_500 (demo_page\<lparr>selection := [7]\<rparr>) demo_panel)
     = [Fetch (device_request demo_panel (device ''dm1'' [] [] (Some 2, Some 3, Some 4))),
        Alert ''Could not add new device. See console for more details.'',
        ConsoleError (NewError ''device exists'')] \<and>
   fst (onSubmitButtonClick real_three fetch_offline (demo_page\<lparr>selection := [7]\<rparr>) demo_panel)
     = [Fetch (device_request demo_panel (device ''dm1'' [] [] (Some 2, Some 3, Some 4))),
        Alert ''Could not add new device. See console for more details.'',
        ConsoleError (Rejected ''Failed to fetch'')] \<and>
   fst (onSubmitButtonClick real_three fetch_ok
      (demo_page\<lparr>selection := [7],
                 model := Some \<lparr>getInstanceTree = None, getFragmentList = None\<rparr>\<rparr>) demo_panel)
     = [Alert ''Could not add new device. See console for more details.'',
        ConsoleError TypeError]"
proof -
  have no_tree: "fst (onSubmitButtonClick real_three fetch_ok
      (demo_page\<lparr>selection := [7],
                 model := Some \<lparr>getInstanceTree = None, getFragmentList = None\<rparr>\<rparr>) demo_panel)
     = [Alert ''Could not add new device. See console for more details.'',
        ConsoleError TypeError]"
    by (simp add: onSubmitButtonClick_def submit_try_def selectionCenter_def)
  have served: "fst (onSubmitButtonClick real_three fetch_ok (demo_page\<lparr>selection := [7]\<rparr>)
      demo_panel)
     = [Fetch (device_request demo_panel (device ''dm1'' [] [] (Some 2, Some 3, Some 4))),
        Alert ''New device has been successfully added.'']"
    by (simp add: onSubmitButtonClick_def demo_submit_try fetch_ok_def)
  have refused: "fst (onSubmitButtonClick real_three fetch_500 (demo_page\<lparr>selection := [7]\<rparr>)
      demo_panel)
     = [Fetch (device_request demo_panel (device ''dm1'' [] [] (Some 2, Some 3, Some 4))),
        Alert ''Could not add new device. See console for more details.'',
        ConsoleError (NewError ''device exists'')]"
    by (simp add: onSubmitButtonClick_def demo_submit_try fetch_500_def)
  have down: "fst (onSubmitButtonClick real_three fetch_offline (demo_page\<lparr>selection := [7]\<rparr>)
      demo_panel)
     = [Fetch (device_request demo_panel (device ''dm1'' [] [] (Some 2, Some 3, Some 4))),
        Alert ''Could not add new device. See console for more details.'',
        ConsoleError (Rejected ''Failed to fetch'')]"
    by (simp add: onSubmitButtonClick_def demo_submit_try fetch_offline_def)
  show ?thesis
    using submit_exactly_one_outcome [of real_three fetch_ok "demo_page\<lparr>selection := [7]\<rparr>"
        demo_panel]
    by (simp only: no_tree refused down) (simp add: served alerts_def)
qed

text \<open>
  C3, as the code has it. A submit makes at most one request. It makes none when the
  computation of the center or the reading of a form field raises. When they succeed it
  makes exactly one: to the url of the panel's options, with method post, the one header
  Content-Type: application/json, and a body with the keys deviceModelId, deviceId,
  deviceName (the values of the three fields) and positon (the object of x, y, z of the
  center), in this order.
\<close>

theorem submit_posts_device_once:
  "length (posts (fst (onSubmitButtonClick T fetch v p))) \<le> 1 \<and>
   (selectionCenter T v = Inl e \<or> document v ''deviceModelId'' = None \<or>
      document v ''deviceId'' = None \<or> document v ''deviceName'' = None
    \<longrightarrow> posts (fst (onSubmitButtonClick T fetch v p)) = []) \<and>
   (selectionCenter T v = Inr (x, y, z) \<and> document v ''deviceModelId'' = Some e1 \<and>
      document v ''deviceId'' = Some e2 \<and> document v ''deviceName'' = Some e3
    \<longrightarrow> posts (fst (onSubmitButtonClick T fetch v p)) =
          [\<lparr>url = panel_options p ''url'', http_method = ''post'',
            headers = [(''Content-Type'', ''application/json'')],
            body = JObject [(''deviceModelId'', JString (elem_value e1)),
                            (''deviceId'', JString (elem_value e2)),
                            (''deviceName'', JString (elem_value e3)),
                            (''positon'', JObject [(''x'', JNumber x), (''y'', JNumber y),
                                                   (''z'', JNumber z)])]\<rparr>])"
proof (intro conjI impI)
  show "length (posts (fst (onSubmitButtonClick T fetch v p))) \<le> 1"
    using posts_submit_try_le1 [of T fetch v p] by (simp only: posts_onSubmitButtonClick)
next
  assume "selectionCenter T v = Inl e \<or> document v ''deviceModelId'' = None \<or>
      document v ''deviceId'' = None \<or> document v ''deviceName'' = None"
  then show "posts (fst (onSubmitButtonClick T fetch v p)) = []"
    by (simp only: posts_onSubmitButtonClick posts_submit_try_none)
next
  assume "selectionCenter T v = Inr (x, y, z) \<and> document v ''deviceModelId'' = Some e1 \<and>
      document v ''deviceId'' = Some e2 \<and> document v ''deviceName'' = Some e3"
  then show "posts (fst (onSubmitButtonClick T fetch v p)) =
          [\<lparr>url = panel_options p ''url'', http_method = ''post'',
            headers = [(''Content-Type'', ''application/json'')],
            body = JObject [(''deviceModelId'', JString (elem_value e1)),
                            (''deviceId'', JString (elem_value e2)),
                            (''deviceName'', JString (elem_value e3)),
                            (''positon'', JObject [(''x'', JNumber x), (''y'', JNumber y),
                                                   (''z'', JNumber z)])]\<rparr>]"
    by (simp add: posts_onSubmitButtonClick posts_submit_try device_request_def device_def
        xyz_def)
qed

theorem submit_posts_device_once_witness:
  "posts (fst (onSubmitButtonClick real_three fetch_ok (demo_page\<lparr>selection := [7]\<rparr>)
       demo_panel)) =
     [\<lparr>url = Some ''/api/devices?provider=synthetic&project=unused'', http_method = ''post'',
       headers = [(''Content-Type'', ''application/json'')],
       body = JObject [(''deviceModelId'', JString ''dm1''), (''deviceId'', JString []),
                       (''deviceName'', JString []),
                       (''positon'', JObject [(''x'', JNumber (Some 2)), (''y'', JNumber (Some 3)),
                                              (''z'', JNumber (Some 4))])]\<rparr>]"
  using submit_posts_device_once [of real_three fetch_ok "demo_page\<lparr>selection := [7]\<rparr>"
      demo_panel TypeError "Some 2" "Some 3" "Some 4", THEN conjunct2, THEN conjunct2]
    demo_center [of "[]"] demo_fields [of "[7]"]
  by (simp add: demo_panel_def)

text \<open>C3 as stated fails: with object 7 selected and the instance tree of the model not
  there, the submit makes no request at all and shows the failure alert.\<close>

theorem submit_without_tree_posts_nothing_counterexample:
  "posts (fst (onSubmitButtonClick real_three fetch_ok
      (demo_page\<lparr>selection := [7],
                 model := Some \<lparr>getInstanceTree = None, getFragmentList = None\<rparr>\<rparr>)
      demo_panel)) = [] \<and>
   alerts (fst (onSubmitButtonClick real_three fetch_ok
      (demo_page\<lparr>selection := [7],
                 model := Some \<lparr>getInstanceTree = None, getFragmentList = None\<rparr>\<rparr>)
      demo_panel)) = [''Could not add new device. See console for more details.'']"
  by (simp add: onSubmitButtonClick_def submit_try_def selectionCenter_def posts_def alerts_def)

lemma enumCallbacks_overwrite:
  assumes "\<forall>f\<in>set frs. \<forall>dst. fl f dst = Inr (wb f)"
  shows "enumCallbacks T (Some fl) frs (tb, fb) =
           Inr (foldl (Box3_union T) tb (map wb frs), if frs = [] then fb else wb (last frs))"
  using assms by (induction frs arbitrary: tb fb) auto

lemma selectionCenter_overwrite:
  assumes "model v = Some m" and "getInstanceTree m = Some tree"
    and "tree (js_index (selection v) 0) True = Inr frs"
    and "frs = [] \<or> getFragmentList m = Some fl"
    and "\<forall>f\<in>set frs. \<forall>dst. fl f dst = Inr (wb f)"
  shows "selectionCenter T v =
           Inr (Box3_center T (foldl (Box3_union T) (Box3_new T) (map wb frs)))"
proof (cases "frs = []")
  case True
  with assms(1-3) show ?thesis by (simp add: selectionCenter_def)
next
  case False
  with assms(4) have fl: "getFragmentList m = Some fl" by simp
  show ?thesis
    using assms(1-3) fl enumCallbacks_overwrite [OF assms(5), of T "Box3_new T" "Box3_new T"]
    by (simp add: selectionCenter_def)
qed

text \<open>
  C4. When the first selected identifier is \<open>d\<close>, the host enumerates the fragments
  \<open>frs\<close> for it, and \<^verbatim>\<open>getWorldBounds\<close> writes the world box \<open>wb f\<close> of each of them into
  the box it is given, the request carries under the key positon the center of the box
  obtained from the empty box by the union with \<open>wb f\<close> for each \<open>f\<close> of \<open>frs\<close> in turn.
\<close>

theorem position_is_center_of_union_of_fragment_boxes:
  assumes "selection v = d # rest"
    and "model v = Some m" and "getInstanceTree m = Some tree"
    and "tree (Some d) True = Inr frs"
    and "frs = [] \<or> getFragmentList m = Some fl"
    and "\<forall>f\<in>set frs. \<forall>dst. fl f dst = Inr (wb f)"
    and "document v ''deviceModelId'' = Some e1"
    and "document v ''deviceId'' = Some e2"
    and "document v ''deviceName'' = Some e3"
  shows "\<exists>req. posts (fst (onSubmitButtonClick T fetch v p)) = [req] \<and>
           json_get (body req) ''positon'' =
             Some (xyz (Box3_center T (foldl (Box3_union T) (Box3_new T) (map wb frs))))"
proof -
  from assms(1,4) have "tree (js_index (selection v) 0) True = Inr frs"
    by (simp add: js_index_def)
  from selectionCenter_overwrite [OF assms(2,3) this assms(5,6)]
  have c: "selectionCenter T v =
      Inr (Box3_center T (foldl (Box3_union T) (Box3_new T) (map wb frs)))" .
  show ?thesis
    by (simp add: posts_onSubmitButtonClick posts_submit_try [OF c assms(7-9)]
        device_request_def device_def)
qed

theorem position_is_center_of_union_of_fragment_boxes_witness:
  "\<exists>req. posts (fst (onSubmitButtonClick real_three fetch_ok (demo_page\<lparr>selection := [7]\<rparr>)
               demo_panel)) = [req] \<and>
     json_get (body req) ''positon'' =
       Some (JObject [(''x'', JNumber (Some 2)), (''y'', JNumber (Some 3)), (''z'', JNumber (Some 4))])"
proof -
  have sel: "selection (demo_page\<lparr>selection := [7]\<rparr>) = 7 # []" by simp
  have m: "model (demo_page\<lparr>selection := [7]\<rparr>) = Some demo_model"
    by (simp add: demo_page_def demo_viewer_def)
  have t: "getInstanceTree demo_model = Some demo_tree" by (simp add: demo_model_def)
  have frs: "demo_tree (Some 7) True = Inr [1, 2]" by (simp add: demo_tree_def)
  have fl: "[1, 2] = ([] :: fragId list) \<or> getFragmentList demo_model = Some demo_frags"
    by (simp add: demo_model_def)
  have wb: "\<forall>f\<in>set [1, 2]. \<forall>dst. demo_frags f dst =
      Inr ((\<lambda>f. if f = 1 then Some ((0, 0, 0), (2, 2, 2)) else Some ((1, 1, 1), (4, 6, 8))) f)"
    by (simp add: demo_frags_def)
  show ?thesis
    using position_is_center_of_union_of_fragment_boxes [OF sel m t frs fl wb demo_fields [of "[7]"],
        of real_three fetch_ok demo_panel]
    by (simp add: real_three_def xyz_def)
qed

lemma selectionCenter_ignores_document:
  "selectionCenter T (v\<lparr>document := d\<rparr>) = selectionCenter T v"
  by (simp add: selectionCenter_def)

lemma field_value_ignores_submitBtn:
  "field_value (d(''submitBtn'' := b)) ''deviceModelId'' = field_value d ''deviceModelId''"
  "field_value (d(''submitBtn'' := b)) ''deviceId'' = field_value d ''deviceId''"
  "field_value (d(''submitBtn'' := b)) ''deviceName'' = field_value d ''deviceName''"
  by (simp_all add: field_value_def)

lemma submit_try_ignores_submitBtn:
  "submit_try T fetch (v\<lparr>document := (document v)(''submitBtn'' := b)\<rparr>) p = submit_try T fetch v p"
  by (simp add: submit_try_def selectionCenter_ignores_document field_value_ignores_submitBtn
      cong: sum.case_cong)

lemma selectionCenter_first_only:
  "js_index (selection v) 0 = js_index s 0 \<Longrightarrow>
     selectionCenter T (v\<lparr>selection := s\<rparr>) = selectionCenter T v"
  by (simp add: selectionCenter_def cong: option.case_cong sum.case_cong)

lemma submit_try_first_only:
  "js_index (selection v) 0 = js_index s 0 \<Longrightarrow>
     submit_try T fetch (v\<lparr>selection := s\<rparr>) p = submit_try T fetch v p"
  by (simp add: submit_try_def selectionCenter_first_only cong: sum.case_cong)

text \<open>
  C5. The handler has no check of the size of the selection. Whatever the list \<open>s\<close> is
  (empty and longer than one included), it hands \<^verbatim>\<open>dbids[0]\<close> (undefined for the empty
  list) to the enumeration and, when the host's calls and the reading of the fields
  succeed, it makes the request. Nor does it look at the submit button: the run is the
  same whatever the button's state is, and also when the button is not in the page.
\<close>

theorem submit_does_not_recheck_selection:
  assumes "model v = Some m" and "getInstanceTree m = Some tree"
    and "tree (js_index s 0) True = Inr frs"
    and "enumCallbacks T (getFragmentList m) frs (Box3_new T, Box3_new T) = Inr (tb, fb)"
    and "document v ''deviceModelId'' = Some e1"
    and "document v ''deviceId'' = Some e2"
    and "document v ''deviceName'' = Some e3"
  shows "posts (fst (onSubmitButtonClick T fetch (v\<lparr>selection := s\<rparr>) p)) =
           [device_request p (device (elem_value e1) (elem_value e2) (elem_value e3)
              (Box3_center T tb))] \<and>
         onSubmitButtonClick T fetch
             (v\<lparr>selection := s, document := (document v)(''submitBtn'' := b)\<rparr>) p =
           onSubmitButtonClick T fetch (v\<lparr>selection := s\<rparr>) p"
proof
  have c: "selectionCenter T (v\<lparr>selection := s\<rparr>) = Inr (Box3_center T tb)"
    using assms(1-4) by (simp add: selectionCenter_def)
  show "posts (fst (onSubmitButtonClick T fetch (v\<lparr>selection := s\<rparr>) p)) =
           [device_request p (device (elem_value e1) (elem_value e2) (elem_value e3)
              (Box3_center T tb))]"
    using posts_submit_try [OF c, of e1 e2 e3 fetch p] assms(5-7)
    by (simp add: posts_onSubmitButtonClick)
  show "onSubmitButtonClick T fetch
             (v\<lparr>selection := s, document := (document v)(''submitBtn'' := b)\<rparr>) p =
           onSubmitButtonClick T fetch (v\<lparr>selection := s\<rparr>) p"
    using submit_try_ignores_submitBtn [of T fetch "v\<lparr>selection := s\<rparr>" b p]
    by (simp add: onSubmitButtonClick_def)
qed

theorem submit_does_not_recheck_selection_witness:
  "posts (fst (onSubmitButtonClick real_three fetch_ok (demo_page\<lparr>selection := []\<rparr>) demo_panel)) =
     [device_request demo_panel (device ''dm1'' [] [] (None, None, None))] \<and>
   posts (fst (onSubmitButtonClick real_three fetch_ok (demo_page\<lparr>selection := [7, 8]\<rparr>)
     demo_panel)) =
     [device_request demo_panel (device ''dm1'' [] [] (Some 2, Some 3, Some 4))]"
proof -
  have t0: "demo_tree (js_index [] 0) True = Inr []"
    by (simp add: demo_tree_def js_index_def)
  have c0: "enumCallbacks real_three (getFragmentList demo_model) []
      (Box3_new real_three, Box3_new real_three) = Inr (None, None)"
    by (simp add: real_three_def)
  have t2: "demo_tree (js_index [7, 8] 0) True = Inr [1, 2]"
    by (simp add: demo_tree_def js_index_def)
  have c2: "enumCallbacks real_three (getFragmentList demo_model) [1, 2]
      (Box3_new real_three, Box3_new real_three) =
      Inr (Some ((0, 0, 0), (4, 6, 8)), Some ((1, 1, 1), (4, 6, 8)))"
    by (simp add: real_three_def demo_model_def demo_frags_def)
  show ?thesis
    using submit_does_not_recheck_selection [OF demo_page_model t0 c0 demo_page_fields,
        of fetch_ok demo_panel None]
      submit_does_not_recheck_selection [OF demo_page_model t2 c2 demo_page_fields,
        of fetch_ok demo_panel None]
    by (simp add: real_three_def)
qed

lemma floor_center:
  "selectionCenter real_three (floor_page\<lparr>selection := 7 # rest\<rparr>) =
     Inr (Some 2, Some 3, Some 4)"
  "selectionCenter real_three (floor_page\<lparr>selection := 8 # rest\<rparr>) =
     Inr (Some 15, Some 15, Some 15)"
  "selectionCenter real_three (floor_page\<lparr>selection := 9 # rest\<rparr>) =
     Inr (Some 16, Some (- 3), Some (- 3))"
  by (simp_all add: selectionCenter_def floor_page_def demo_viewer_def floor_tree_def
      floor_frags_def real_three_def js_index_def)

lemma floor_page_fields:
  "document (floor_page\<lparr>selection := s\<rparr>) ''deviceModelId'' =
     Some \<lparr>attributes = [''name'' \<mapsto> ''deviceModelId'', ''id'' \<mapsto> ''deviceModelId''],
          elem_value = ''dm2'', listeners = []\<rparr>"
  "document (floor_page\<lparr>selection := s\<rparr>) ''deviceId'' =
     Some \<lparr>attributes = [''type'' \<mapsto> ''text'', ''id'' \<mapsto> ''deviceId''],
          elem_value = ''sensor-17'', listeners = []\<rparr>"
  "document (floor_page\<lparr>selection := s\<rparr>) ''deviceName'' =
     Some \<lparr>attributes = [''type'' \<mapsto> ''text'', ''id'' \<mapsto> ''deviceName''],
          elem_value = ''Lobby thermostat'', listeners = []\<rparr>"
  by (simp_all add: floor_page_def demo_viewer_def)

text \<open>
  C10. With more than one object selected, \<open>d\<close> the first, the run of the handler is the
  run for \<open>d\<close> alone: the other identifiers change neither the center nor anything else.
  When the center for \<open>d\<close> alone is \<open>(x, y, z)\<close> and the three fields are in the page,
  the handler makes one request, whose body has the keys deviceModelId, deviceId,
  deviceName with the values of the three fields and the key positon with the object of
  \<open>x\<close>, \<open>y\<close>, \<open>z\<close>. When the host enumerates the fragments \<open>frs\<close> for \<open>d\<close> and writes the
  world box \<open>wb f\<close> of each, these coordinates are the center of the union of the boxes
  of \<open>frs\<close>, the fragments of \<open>d\<close> only.
\<close>

theorem submit_uses_first_selected_only:
  assumes "selection v = d # rest"
  shows "onSubmitButtonClick T fetch v p = onSubmitButtonClick T fetch (v\<lparr>selection := [d]\<rparr>) p \<and>
         selectionCenter T v = selectionCenter T (v\<lparr>selection := [d]\<rparr>) \<and>
         (selectionCenter T (v\<lparr>selection := [d]\<rparr>) = Inr (x, y, z) \<and>
          document v ''deviceModelId'' = Some e1 \<and> document v ''deviceId'' = Some e2 \<and>
          document v ''deviceName'' = Some e3
          \<longrightarrow> posts (fst (onSubmitButtonClick T fetch v p)) =
                [\<lparr>url = panel_options p ''url'', http_method = ''post'',
                  headers = [(''Content-Type'', ''application/json'')],
                  body = JObject [(''deviceModelId'', JString (elem_value e1)),
                                  (''deviceId'', JString (elem_value e2)),
                                  (''deviceName'', JString (elem_value e3)),
                                  (''positon'', JObject [(''x'', JNumber x), (''y'', JNumber y),
                                                         (''z'', JNumber z)])]\<rparr>]) \<and>
         (model v = Some m \<and> getInstanceTree m = Some tree \<and> tree (Some d) True = Inr frs \<and>
          (frs = [] \<or> getFragmentList m = Some fl) \<and>
          (\<forall>f\<in>set frs. \<forall>dst. fl f dst = Inr (wb f)) \<and>
          Box3_center T (foldl (Box3_union T) (Box3_new T) (map wb frs)) = (cx, cy, cz) \<and>
          document v ''deviceModelId'' = Some e1 \<and> document v ''deviceId'' = Some e2 \<and>
          document v ''deviceName'' = Some e3
          \<longrightarrow> posts (fst (onSubmitButtonClick T fetch v p)) =
                [\<lparr>url = panel_options p ''url'', http_method = ''post'',
                  headers = [(''Content-Type'', ''application/json'')],
                  body = JObject [(''deviceModelId'', JString (elem_value e1)),
                                  (''deviceId'', JString (elem_value e2)),
                                  (''deviceName'', JString (elem_value e3)),
                                  (''positon'', JObject [(''x'', JNumber cx), (''y'', JNumber cy),
                                                         (''z'', JNumber cz)])]\<rparr>])"
proof -
  have i: "js_index (selection v) 0 = js_index [d] 0"
    using assms by (simp add: js_index_def)
  have c: "selectionCenter T v = selectionCenter T (v\<lparr>selection := [d]\<rparr>)"
    using selectionCenter_first_only [OF i, of T] by simp
  have s: "onSubmitButtonClick T fetch v p = onSubmitButtonClick T fetch (v\<lparr>selection := [d]\<rparr>) p"
    using submit_try_first_only [OF i, of T fetch p] by (simp add: onSubmitButtonClick_def)
  have body: "posts (fst (onSubmitButtonClick T fetch v p)) =
                [\<lparr>url = panel_options p ''url'', http_method = ''post'',
                  headers = [(''Content-Type'', ''application/json'')],
                  body = JObject [(''deviceModelId'', JString (elem_value e1)),
                                  (''deviceId'', JString (elem_value e2)),
                                  (''deviceName'', JString (elem_value e3)),
                                  (''positon'', JObject [(''x'', JNumber a), (''y'', JNumber b),
                                                         (''z'', JNumber c')])]\<rparr>]"
    if "selectionCenter T v = Inr (a, b, c')" and "document v ''deviceModelId'' = Some e1"
      and "document v ''deviceId'' = Some e2" and "document v ''deviceName'' = Some e3"
    for a b c'
    using posts_submit_try [OF that, of fetch p]
    by (simp add: posts_onSubmitButtonClick device_request_def device_def xyz_def)
  have frags: "selectionCenter T v = Inr (cx, cy, cz)"
    if "model v = Some m" and "getInstanceTree m = Some tree" and "tree (Some d) True = Inr frs"
      and "frs = [] \<or> getFragmentList m = Some fl"
      and "\<forall>f\<in>set frs. \<forall>dst. fl f dst = Inr (wb f)"
      and "Box3_center T (foldl (Box3_union T) (Box3_new T) (map wb frs)) = (cx, cy, cz)"
  proof -
    from assms that(3) have "tree (js_index (selection v) 0) True = Inr frs"
      by (simp add: js_index_def)
    from selectionCenter_overwrite [OF that(1,2) this that(4,5), of T] that(6)
    show ?thesis by simp
  qed
  show ?thesis
  proof (intro conjI impI)
    show "onSubmitButtonClick T fetch v p =
        onSubmitButtonClick T fetch (v\<lparr>selection := [d]\<rparr>) p"
      by (rule s)
  next
    show "selectionCenter T v = selectionCenter T (v\<lparr>selection := [d]\<rparr>)"
      by (rule c)
  next
    assume "selectionCenter T (v\<lparr>selection := [d]\<rparr>) = Inr (x, y, z) \<and>
          document v ''deviceModelId'' = Some e1 \<and> document v ''deviceId'' = Some e2 \<and>
          document v ''deviceName'' = Some e3"
    then show "posts (fst (onSubmitButtonClick T fetch v p)) =
                [\<lparr>url = panel_options p ''url'', http_method = ''post'',
                  headers = [(''Content-Type'', ''application/json'')],
                  body = JObject [(''deviceModelId'', JString (elem_value e1)),
                                  (''deviceId'', JString (elem_value e2)),
                                  (''deviceName'', JString (elem_value e3)),
                                  (''positon'', JObject [(''x'', JNumber x), (''y'', JNumber y),
                                                         (''z'', JNumber z)])]\<rparr>]"
      using c by (intro body) simp_all
  next
    assume h: "model v = Some m \<and> getInstanceTree m = Some tree \<and> tree (Some d) True = Inr frs \<and>
          (frs = [] \<or> getFragmentList m = Some fl) \<and>
          (\<forall>f\<in>set frs. \<forall>dst. fl f dst = Inr (wb f)) \<and>
          Box3_center T (foldl (Box3_union T) (Box3_new T) (map wb frs)) = (cx, cy, cz) \<and>
          document v ''deviceModelId'' = Some e1 \<and> document v ''deviceId'' = Some e2 \<and>
          document v ''deviceName'' = Some e3"
    then have "selectionCenter T v = Inr (cx, cy, cz)"
      by (intro frags) simp_all
    with h show "posts (fst (onSubmitButtonClick T fetch v p)) =
                [\<lparr>url = panel_options p ''url'', http_method = ''post'',
                  headers = [(''Content-Type'', ''application/json'')],
                  body = JObject [(''deviceModelId'', JString (elem_value e1)),
                                  (''deviceId'', JString (elem_value e2)),
                                  (''deviceName'', JString (elem_value e3)),
                                  (''positon'', JObject [(''x'', JNumber cx), (''y'', JNumber cy),
                                                         (''z'', JNumber cz)])]\<rparr>]"
      by (intro body) simp_all
  qed
qed

text \<open>On the second page with 7, 8 and 9 selected, in this order: the request is the one
  for 7 alone, with the center of the two fragments of 7, although 8 and 9 have boxes
  elsewhere (selected first, they give other centers).\<close>

theorem submit_uses_first_selected_only_witness:
  "onSubmitButtonClick real_three fetch_ok (floor_page\<lparr>selection := [7, 8, 9]\<rparr>) demo_panel =
     onSubmitButtonClick real_three fetch_ok (floor_page\<lparr>selection := [7]\<rparr>) demo_panel \<and>
   posts (fst (onSubmitButtonClick real_three fetch_ok (floor_page\<lparr>selection := [7, 8, 9]\<rparr>)
     demo_panel)) =
     [\<lparr>url = Some ''/api/devices?provider=synthetic&project=unused'', http_method = ''post'',
       headers = [(''Content-Type'', ''application/json'')],
       body = JObject [(''deviceModelId'', JString ''dm2''), (''deviceId'', JString ''sensor-17''),
                       (''deviceName'', JString ''Lobby thermostat''),
                       (''positon'', JObject [(''x'', JNumber (Some 2)), (''y'', JNumber (Some 3)),
                                              (''z'', JNumber (Some 4))])]\<rparr>] \<and>
   selectionCenter real_three (floor_page\<lparr>selection := [8, 7, 9]\<rparr>) =
     Inr (Some 15, Some 15, Some 15) \<and>
   selectionCenter real_three (floor_page\<lparr>selection := [9, 8, 7]\<rparr>) =
     Inr (Some 16, Some (- 3), Some (- 3))"
proof -
  have s: "selection (floor_page\<lparr>selection := [7, 8, 9]\<rparr>) = 7 # [8, 9]" by simp
  have c: "selectionCenter real_three (floor_page\<lparr>selection := [7, 8, 9], selection := [7]\<rparr>) =
      Inr (Some 2, Some 3, Some 4)"
    using floor_center(1) [of "[]"] by simp
  note t = submit_uses_first_selected_only [OF s, of real_three fetch_ok demo_panel]
  have eq: "onSubmitButtonClick real_three fetch_ok (floor_page\<lparr>selection := [7, 8, 9]\<rparr>)
      demo_panel =
     onSubmitButtonClick real_three fetch_ok (floor_page\<lparr>selection := [7]\<rparr>) demo_panel"
    using t [THEN conjunct1] by simp
  have post: "posts (fst (onSubmitButtonClick real_three fetch_ok
       (floor_page\<lparr>selection := [7, 8, 9]\<rparr>) demo_panel)) =
     [\<lparr>url = Some ''/api/devices?provider=synthetic&project=unused'', http_method = ''post'',
       headers = [(''Content-Type'', ''application/json'')],
       body = JObject [(''deviceModelId'', JString ''dm2''), (''deviceId'', JString ''sensor-17''),
                       (''deviceName'', JString ''Lobby thermostat''),
                       (''positon'', JObject [(''x'', JNumber (Some 2)), (''y'', JNumber (Some 3)),
                                              (''z'', JNumber (Some 4))])]\<rparr>]"
    using t [THEN conjunct2, THEN conjunct2, THEN conjunct1, rule_format,
        OF conjI [OF c conjI [OF floor_page_fields(1) conjI [OF floor_page_fields(2)
          floor_page_fields(3)]]]]
    by (simp add: demo_panel_def)
  show ?thesis
    using eq post floor_center(2) [of "[7, 9]"] floor_center(3) [of "[8, 7]"] by simp
qed

subsection \<open>The toolbar button\<close>

lemma groups_named_empty_getControl:
  assumes "toolbar v = Some tb"
  shows "(groups_named v i = []) = (getControl (ui v) tb i = None)"
  using assms by (auto simp: groups_named_def getControl_def filter_empty_conv find_None_iff)

lemma createUI_existing:
  assumes "toolbar (viewer x) = Some tb"
    and "getControl (ui (viewer x)) tb ''device-extension-group'' = Some g"
  shows "createUI x = Inr (x\<lparr>group := Some g\<rparr>)"
  using assms by (simp add: createUI_def)

lemma createUI_fresh:
  assumes tb: "toolbar (viewer x) = Some tb"
    and lt: "tb < length (ui (viewer x))"
    and wf: "\<forall>c\<in>set (controls (ui (viewer x) ! tb)). c < length (ui (viewer x))"
    and none: "getControl (ui (viewer x)) tb ''device-extension-group'' = None"
  shows "createUI x =
     Inr (x\<lparr>group := Some (length (ui (viewer x))),
            button := Some (Suc (length (ui (viewer x)))),
            viewer := (viewer x)\<lparr>ui :=
              (ui (viewer x))[tb := (ui (viewer x) ! tb)
                 \<lparr>controls := controls (ui (viewer x) ! tb) @ [length (ui (viewer x))]\<rparr>]
              @ [\<lparr>control_id = ''device-extension-group'',
                  controls = [Suc (length (ui (viewer x)))], toolTip = None, onClick = None\<rparr>,
                 \<lparr>control_id = ''add-device-button'', controls = [],
                  toolTip = Some ''Add Device'', onClick = Some TogglePanel\<rparr>]\<rparr>\<rparr>)"
proof -
  let ?h = "ui (viewer x)"
  let ?G = "new_control ''device-extension-group''"
  let ?B = "new_control ''add-device-button''"
  let ?H2 = "?h[tb := (?h ! tb)\<lparr>controls := controls (?h ! tb) @ [length ?h]\<rparr>] @ [?G]"
  let ?H4 = "?h[tb := (?h ! tb)\<lparr>controls := controls (?h ! tb) @ [length ?h]\<rparr>]
        @ [?G\<lparr>controls := [Suc (length ?h)]\<rparr>, ?B]"
  have none1: "getControl (?h @ [?G]) tb ''device-extension-group'' = None"
    using none lt wf unfolding getControl_def find_None_iff
    by (auto simp: nth_append)
  have a1: "addControl (?h @ [?G]) tb (length ?h) = ?H2"
    using none1 lt unfolding addControl_def
    by (simp add: nth_append new_control_def list_update_append)
  have l2: "length ?H2 = Suc (length ?h)" by simp
  have a2: "addControl (?H2 @ [?B]) (length ?h) (Suc (length ?h)) = ?H4"
    unfolding addControl_def getControl_def
    by (simp add: nth_append new_control_def list_update_append)
  show ?thesis
    unfolding createUI_def Let_def tb none option.case a1 l2 a2
    by (simp add: nth_append new_control_def list_update_append)
qed

lemma find_snoc_new:
  "\<forall>x\<in>set xs. \<not> P x \<Longrightarrow> P y \<Longrightarrow> find P (xs @ [y]) = Some y"
  by (induction xs) simp_all

lemma createUI_times_fixpoint:
  "createUI y = Inr y \<Longrightarrow> createUI_times k y = Inr y"
  by (induction k) simp_all

lemma createUI_first:
  assumes tb: "toolbar (viewer x) = Some tb"
    and lt: "tb < length (ui (viewer x))"
    and wf: "\<forall>c\<in>set (controls (ui (viewer x) ! tb)). c < length (ui (viewer x))"
    and none: "groups_named (viewer x) ''device-extension-group'' = []"
  shows "\<exists>x'. createUI x = Inr x' \<and>
           groups_named (viewer x') ''device-extension-group'' = [length (ui (viewer x))] \<and>
           group x' = Some (length (ui (viewer x))) \<and>
           child_ids (viewer x') (length (ui (viewer x))) = [''add-device-button''] \<and>
           createUI x' = Inr x'"
proof -
  let ?h = "ui (viewer x)"
  have g: "getControl ?h tb ''device-extension-group'' = None"
    using none groups_named_empty_getControl [OF tb] by simp
  then have old: "\<forall>c\<in>set (controls (?h ! tb)). control_id (?h ! c) \<noteq> ''device-extension-group''"
    by (simp add: getControl_def find_None_iff)
  obtain x' where x': "createUI x = Inr x'"
    and ui': "ui (viewer x') = ?h[tb := (?h ! tb)\<lparr>controls := controls (?h ! tb) @ [length ?h]\<rparr>]
              @ [\<lparr>control_id = ''device-extension-group'',
                  controls = [Suc (length ?h)], toolTip = None, onClick = None\<rparr>,
                 \<lparr>control_id = ''add-device-button'', controls = [],
                  toolTip = Some ''Add Device'', onClick = Some TogglePanel\<rparr>]"
    and tb': "toolbar (viewer x') = Some tb"
    and grp': "group x' = Some (length ?h)"
    using createUI_fresh [OF tb lt wf g] tb by simp
  have id_old: "control_id (ui (viewer x') ! c) = control_id (?h ! c)" if "c < length ?h" for c
    using that by (cases "c = tb") (simp_all add: ui' nth_append)
  have kids: "controls (ui (viewer x') ! tb) = controls (?h ! tb) @ [length ?h]"
    using lt by (simp add: ui' nth_append)
  have new_id: "control_id (ui (viewer x') ! length ?h) = ''device-extension-group''"
    by (simp add: ui' nth_append)
  have flt: "filter (\<lambda>c. control_id (ui (viewer x') ! c) = ''device-extension-group'')
               (controls (?h ! tb)) = []"
    using old wf id_old by (simp add: filter_empty_conv)
  have named: "groups_named (viewer x') ''device-extension-group'' = [length ?h]"
    by (simp add: groups_named_def tb' kids flt new_id)
  have fnd: "getControl (ui (viewer x')) tb ''device-extension-group'' = Some (length ?h)"
    unfolding getControl_def kids
    using old wf id_old new_id by (intro find_snoc_new) simp_all
  have again: "createUI x' = Inr x'"
    using createUI_existing [OF tb' fnd] grp' by simp
  have ch: "child_ids (viewer x') (length ?h) = [''add-device-button'']"
    by (simp add: child_ids_def ui' nth_append)
  show ?thesis using x' named grp' ch again by simp
qed

lemma demo_extension:
  "toolbar (viewer (DeviceExtension_new demo_viewer opts)) = Some 0"
  "0 < length (ui (viewer (DeviceExtension_new demo_viewer opts)))"
  "\<forall>c\<in>set (controls (ui (viewer (DeviceExtension_new demo_viewer opts)) ! 0)).
      c < length (ui (viewer (DeviceExtension_new demo_viewer opts)))"
  "groups_named (viewer (DeviceExtension_new demo_viewer opts)) ''device-extension-group'' = []"
  by (simp_all add: DeviceExtension_new_def demo_viewer_def groups_named_def new_control_def)

lemma demo_createUI:
  "\<exists>x1. createUI (DeviceExtension_new demo_viewer opts) = Inr x1"
  using createUI_first [OF demo_extension] by blast

text \<open>
  C7. On a toolbar that has no group named device-extension-group yet, any number
  \<open>n > 0\<close> of runs of the toolbar-creation path ends in the state of the first run: the
  toolbar has exactly one group of that name, the extension's \<^verbatim>\<open>_group\<close>, and its only
  child is add-device-button. A further run finds the group and changes nothing.
\<close>

theorem createUI_idempotent:
  assumes "toolbar (viewer x) = Some tb"
    and "tb < length (ui (viewer x))"
    and "\<forall>c\<in>set (controls (ui (viewer x) ! tb)). c < length (ui (viewer x))"
    and "groups_named (viewer x) ''device-extension-group'' = []"
    and "0 < n"
  shows "\<exists>x' g. createUI_times n x = Inr x' \<and> createUI x = Inr x' \<and>
           groups_named (viewer x') ''device-extension-group'' = [g] \<and>
           group x' = Some g \<and>
           child_ids (viewer x') g = [''add-device-button''] \<and>
           createUI x' = Inr x'"
proof -
  obtain x' where x': "createUI x = Inr x'"
      "groups_named (viewer x') ''device-extension-group'' = [length (ui (viewer x))]"
      "group x' = Some (length (ui (viewer x)))"
      "child_ids (viewer x') (length (ui (viewer x))) = [''add-device-button'']"
      "createUI x' = Inr x'"
    using createUI_first [OF assms(1-4)] by blast
  obtain k where n: "n = Suc k" using assms(5) by (cases n) auto
  have "createUI_times n x = Inr x'"
    using x'(1) createUI_times_fixpoint [OF x'(5), of k] by (simp add: n)
  with x' show ?thesis by blast
qed

theorem createUI_idempotent_witness:
  "\<exists>x'. createUI_times 2 (DeviceExtension_new demo_viewer None) = Inr x' \<and>
      groups_named (viewer x') ''device-extension-group'' = [2] \<and>
      child_ids (viewer x') 2 = [''add-device-button''] \<and>
      length (ui (viewer x')) = 4"
proof -
  have two: "0 < (2::nat)" by simp
  have first: "\<exists>x'. createUI (DeviceExtension_new demo_viewer None) = Inr x' \<and>
      groups_named (viewer x') ''device-extension-group'' = [2] \<and>
      child_ids (viewer x') 2 = [''add-device-button''] \<and>
      length (ui (viewer x')) = 4"
    by (simp add: createUI_def DeviceExtension_new_def demo_viewer_def getControl_def
        addControl_def new_control_def groups_named_def child_ids_def Let_def)
  show ?thesis
    using createUI_idempotent [OF demo_extension [of None] two] first by auto
qed

subsection \<open>The url of the request\<close>

lemma createUI_keeps_options:
  "createUI x = Inr x' \<Longrightarrow> options x' = options x \<and> panel x' = panel x"
  by (auto simp: createUI_def Let_def split: option.splits)

lemma createUI_times_keeps_options:
  "createUI_times n x = Inr x' \<Longrightarrow> options x' = options x \<and> panel x' = panel x"
proof (induction n arbitrary: x)
  case 0
  then show ?case by simp
next
  case (Suc n)
  then obtain y where y: "createUI x = Inr y" "createUI_times n y = Inr x'"
    by (auto split: sum.splits)
  with Suc.IH [OF y(2)] createUI_keeps_options [OF y(1)] show ?case by simp
qed

lemma button_onClick_first:
  assumes "panel x = None"
  shows "\<exists>x' p. button_onClick x = Inr x' \<and> panel x' = Some p \<and> panel_options p = options x \<and>
           visible p \<and> options x' = options x"
  using assms NewDevicePanel_new_result [of "viewer x" "''new-device-panel''" "''Add Device''" "options x"]
  by (auto simp: button_onClick_def)

lemma NewDevicePanel_new_fields:
  "\<exists>v' p e1 e2 e3. NewDevicePanel_new v i title opts = Inr (v', p) \<and>
      document v' ''deviceModelId'' = Some e1 \<and> document v' ''deviceId'' = Some e2 \<and>
      document v' ''deviceName'' = Some e3"
  by (simp add: NewDevicePanel_new_def onViewerSelectionChanged_def Let_def panel_markup_def)

lemma createUI_keeps_scene:
  "createUI x = Inr x' \<Longrightarrow>
     model (viewer x') = model (viewer x) \<and> selection (viewer x') = selection (viewer x) \<and>
     document (viewer x') = document (viewer x)"
  by (auto simp: createUI_def Let_def split: option.splits)

lemma button_onClick_scene:
  assumes "panel x = None"
  shows "\<exists>x' p e1 e2 e3. button_onClick x = Inr x' \<and> panel x' = Some p \<and>
           panel_options p = options x \<and> model (viewer x') = model (viewer x) \<and>
           document (viewer x') ''deviceModelId'' = Some e1 \<and>
           document (viewer x') ''deviceId'' = Some e2 \<and>
           document (viewer x') ''deviceName'' = Some e3"
  using assms
    NewDevicePanel_new_result [of "viewer x" "''new-device-panel''" "''Add Device''" "options x"]
    NewDevicePanel_new_fields [of "viewer x" "''new-device-panel''" "''Add Device''" "options x"]
  by (auto simp: button_onClick_def)

lemma selectionCenter_scene:
  "model v = model v' \<Longrightarrow> selection v = selection v' \<Longrightarrow>
     selectionCenter T v = selectionCenter T v'"
  by (simp add: selectionCenter_def)

text \<open>
  C6, as the code has it. Whatever options the extension is constructed with (none
  included), the constructor sets \<^verbatim>\<open>options.url\<close> to
  \<^verbatim>\<open>/api/devices?provider=synthetic&project=unused\<close>; the toolbar-creation path leaves it
  alone, the first click hands these options to the panel, and every request of the
  submit handler of that panel goes to this url.
\<close>

theorem submit_posts_to_the_url_of_the_constructor:
  assumes "createUI_times n (DeviceExtension_new v opts) = Inr x1"
  shows "\<exists>x2 p. button_onClick x1 = Inr x2 \<and> panel x2 = Some p \<and>
           panel_options p ''url'' = Some ''/api/devices?provider=synthetic&project=unused'' \<and>
           (\<forall>req\<in>set (posts (fst (onSubmitButtonClick T fetch v' p))).
              url req = Some ''/api/devices?provider=synthetic&project=unused'')"
proof -
  have o: "options x1 ''url'' = Some ''/api/devices?provider=synthetic&project=unused''"
    and n: "panel x1 = None"
    using createUI_times_keeps_options [OF assms] by (simp_all add: DeviceExtension_new_def)
  obtain x2 p where p: "button_onClick x1 = Inr x2" "panel x2 = Some p"
      "panel_options p = options x1"
    using button_onClick_first [OF n] by blast
  show ?thesis
    using p o posts_submit_try_shape [of T fetch v' p]
    by (simp add: posts_onSubmitButtonClick)
qed

theorem submit_posts_to_the_url_of_the_constructor_witness:
  "\<exists>x1 x2 p. createUI_times 1 (DeviceExtension_new demo_viewer (Some [''url'' \<mapsto> ''/custom''])) = Inr x1 \<and>
      button_onClick x1 = Inr x2 \<and> panel x2 = Some p \<and>
      panel_options p ''url'' = Some ''/api/devices?provider=synthetic&project=unused''"
proof -
  obtain x1 where x1: "createUI (DeviceExtension_new demo_viewer (Some [''url'' \<mapsto> ''/custom''])) = Inr x1"
    using demo_createUI by blast
  then have t: "createUI_times 1 (DeviceExtension_new demo_viewer (Some [''url'' \<mapsto> ''/custom''])) = Inr x1"
    by simp
  show ?thesis
    using submit_posts_to_the_url_of_the_constructor [OF t] t by blast
qed

text \<open>C6 as stated fails: constructed with the options \<^verbatim>\<open>{url: '/custom'}\<close>, the extension
  posts to the url of line 13 and not to \<^verbatim>\<open>/custom\<close>.\<close>

theorem custom_url_is_overwritten_counterexample:
  "\<exists>x1 x2 p. createUI (DeviceExtension_new demo_viewer (Some [''url'' \<mapsto> ''/custom''])) = Inr x1 \<and>
      button_onClick x1 = Inr x2 \<and> panel x2 = Some p \<and>
      map url (posts (fst (onSubmitButtonClick real_three fetch_ok
            ((viewer x2)\<lparr>selection := [7]\<rparr>) p))) =
        [Some ''/api/devices?provider=synthetic&project=unused''] \<and>
      map url (posts (fst (onSubmitButtonClick real_three fetch_ok
            ((viewer x2)\<lparr>selection := [7]\<rparr>) p))) \<noteq> [Some ''/custom'']"
proof -
  let ?x0 = "DeviceExtension_new demo_viewer (Some [''url'' \<mapsto> ''/custom''])"
  obtain x1 where x1: "createUI ?x0 = Inr x1"
    using demo_createUI by blast
  have o: "options x1 ''url'' = Some ''/api/devices?provider=synthetic&project=unused''"
    and n: "panel x1 = None" and m1: "model (viewer x1) = Some demo_model"
    using createUI_keeps_options [OF x1] createUI_keeps_scene [OF x1]
    by (simp_all add: DeviceExtension_new_def demo_viewer_def)
  obtain x2 p e1 e2 e3 where p: "button_onClick x1 = Inr x2" "panel x2 = Some p"
      "panel_options p = options x1" "model (viewer x2) = model (viewer x1)"
      and f: "document (viewer x2) ''deviceModelId'' = Some e1"
      "document (viewer x2) ''deviceId'' = Some e2" "document (viewer x2) ''deviceName'' = Some e3"
    using button_onClick_scene [OF n] by blast
  have "selectionCenter real_three ((viewer x2)\<lparr>selection := [7]\<rparr>) =
      selectionCenter real_three (demo_page\<lparr>selection := [7]\<rparr>)"
    using p(4) m1 by (intro selectionCenter_scene) (simp_all add: demo_page_model)
  then have c: "selectionCenter real_three ((viewer x2)\<lparr>selection := [7]\<rparr>) =
      Inr (Some 2, Some 3, Some 4)"
    by (simp add: demo_center)
  have "posts (fst (onSubmitButtonClick real_three fetch_ok ((viewer x2)\<lparr>selection := [7]\<rparr>) p)) =
      [device_request p (device (elem_value e1) (elem_value e2) (elem_value e3)
         (Some 2, Some 3, Some 4))]"
    using posts_submit_try [OF c, of e1 e2 e3 fetch_ok p] f
    by (simp add: posts_onSubmitButtonClick)
  then have "map url (posts (fst (onSubmitButtonClick real_three fetch_ok
            ((viewer x2)\<lparr>selection := [7]\<rparr>) p))) =
        [Some ''/api/devices?provider=synthetic&project=unused'']"
    using p(3) o by (simp add: device_request_def)
  with x1 p(1,2) show ?thesis by auto
qed

end
